theory Spec2Isabelle
  imports Complex_Main "HOL-Library.Word" "HOL-Library.Log_Nat"
begin

section \<open>Numbers and strings of the source language\<close>

text \<open>
  The program is TypeScript. Every \<^verbatim>\<open>number\<close> of the source is an IEEE double; the
  finite doubles are rationals, so a \<^verbatim>\<open>number\<close> is modelled as a \<^typ>\<open>rat\<close>. The
  values \<^verbatim>\<open>NaN\<close> and \<^verbatim>\<open>Infinity\<close> are not modelled: the callers of the functions
  below pass every reading through \<^verbatim>\<open>parseNumber\<close>, which replaces a non-finite value by
  a fallback.

  The functions are modelled with the exact arithmetic of the rationals, the decimal
  literals of the source (\<^verbatim>\<open>1.8\<close>, \<^verbatim>\<open>0.44\<close>, ...) standing for the decimal fractions they
  are written as. The source rounds the result of every operation to a double, so a value
  of the model can differ from the value of the source in the last bits, and after
  \<^verbatim>\<open>Math.round\<close> by one where the exact value lies on a tie. The properties proved over
  the exact model are those that the rounding of the operations keeps: ranges, thresholds,
  orderings and monotonicity, and values on inputs away from ties. Where a property is
  about the exact value of a sum, the running total of \<^verbatim>\<open>estimateRisk\<close> is modelled a
  second time with the rounding of each operation written out (\<open>fl\<close> below).

  A string of the source is a sequence of UTF-16 code units.
\<close>

type_synonym number = rat

type_synonym jsstring = "16 word list"

text \<open>\<^verbatim>\<open>Math.round\<close>: the nearest integer, a tie going up.\<close>

definition Math_round :: "number \<Rightarrow> number" where
  "Math_round x = of_int \<lfloor>x + 1 / 2\<rfloor>"





section \<open>Data model\<close>

text \<open>
  \<^verbatim>\<open>type RiskLevel\<close> is a union of four string literals. The constructors are the
  romanised literals, in the order of the source:
  \<^item> \<open>Hikui\<close> (low): code units \<^verbatim>\<open>4F4E 3044\<close>;
  \<^item> \<open>YayaTakai\<close> (somewhat high): \<^verbatim>\<open>3084 3084 9AD8 3044\<close>;
  \<^item> \<open>Takai\<close> (high): \<^verbatim>\<open>9AD8 3044\<close>;
  \<^item> \<open>HijoniTakai\<close> (very high): \<^verbatim>\<open>975E 5E38 306B 9AD8 3044\<close>.
\<close>

datatype RiskLevel = Hikui | YayaTakai | Takai | HijoniTakai

record WeatherSnapshot =
  temperature :: number
  humidity :: number
  wind :: number
  precipitation :: number
  pm10 :: number
  pm25 :: number

text \<open>
  Of a \<^verbatim>\<open>Date\<close> the program reads the month only: \<^verbatim>\<open>getMonth()\<close> is 0 for
  January up to 11 for December. An invalid \<^verbatim>\<open>Date\<close>, whose month is \<^verbatim>\<open>NaN\<close>, is
  not a value of the model; on it every comparison of \<^verbatim>\<open>seasonalBase\<close> fails and the
  base is 10, as it is in January.
\<close>

record Date =
  getMonth :: nat

text \<open>
  The argument object of \<^verbatim>\<open>estimateRisk\<close>: the six readings of a snapshot and a date.
\<close>

record RiskInput = WeatherSnapshot +
  date :: Date

record RiskResult =
  score :: number
  level :: RiskLevel
  advice :: jsstring

text \<open>
  One day's self-report. Several records of the program share field names
  (\<^verbatim>\<open>date\<close>, \<^verbatim>\<open>score\<close>, \<^verbatim>\<open>level\<close>, \<^verbatim>\<open>tookMedicine\<close>, \<^verbatim>\<open>memo\<close>); below a
  shared name is written with its record, as in \<open>SymptomLog.date\<close>.
\<close>

record SymptomLog =
  date :: jsstring
  severity :: number
  tookMedicine :: bool
  memo :: jsstring

datatype PollenTypeId = Cedar | Cypress | Grass | Ragweed | Birch

text \<open>The field \<^verbatim>\<open>id\<close> of the source is \<open>id'\<close> here.\<close>

record PollenType =
  id' :: PollenTypeId
  name :: jsstring
  seasonMonths :: "number list"
  peakMonths :: "number list"
  description :: jsstring
  care :: jsstring

record PollenTypeStatus = PollenType +
  score :: number
  level :: RiskLevel

text \<open>
  The state of the page component that the log form reads and writes: the form's three
  fields and the stored history (\<^verbatim>\<open>useState\<close> variables of \<^verbatim>\<open>Home\<close>).
\<close>

record Home =
  symptomSeverity :: number
  tookMedicine :: bool
  memo :: jsstring
  logs :: "SymptomLog list"


section \<open>Risk scoring\<close>

definition clamp :: "number \<Rightarrow> number \<Rightarrow> number \<Rightarrow> number" where
  "clamp v lo hi = min hi (max lo v)"

definition riskLevel :: "number \<Rightarrow> RiskLevel" where
  "riskLevel s =
     (if s \<ge> 75 then HijoniTakai
      else if s \<ge> 55 then Takai
      else if s \<ge> 35 then YayaTakai
      else Hikui)"

fun riskAdvice :: "RiskLevel \<Rightarrow> jsstring" where
  "riskAdvice HijoniTakai =
     [0x5916, 0x51FA, 0x306F, 0x77ED, 0x6642, 0x9593, 0x306B, 0x3057, 0x3001, 0x30DE,
      0x30B9, 0x30AF, 0x30FB, 0x30E1, 0x30AC, 0x30CD, 0x30FB, 0x4E0A, 0x7740, 0x306E,
      0x82B1, 0x7C89, 0x5BFE, 0x7B56, 0x3092, 0x5FB9, 0x5E95, 0x3057, 0x3066, 0x304F,
      0x3060, 0x3055, 0x3044, 0x3002]"
| "riskAdvice Takai =
     [0x9577, 0x6642, 0x9593, 0x306E, 0x5916, 0x51FA, 0x5F8C, 0x306F, 0x8863, 0x985E,
      0x3092, 0x306F, 0x3089, 0x3044, 0x3001, 0x6D17, 0x9854, 0x30FB, 0x3046, 0x304C,
      0x3044, 0x3092, 0x65E9, 0x3081, 0x306B, 0x884C, 0x3044, 0x307E, 0x3057, 0x3087,
      0x3046, 0x3002]"
| "riskAdvice YayaTakai =
     [0x6CB9, 0x65AD, 0x305B, 0x305A, 0x3001, 0x7A93, 0x958B, 0x3051, 0x6642, 0x9593,
      0x3092, 0x77ED, 0x304F, 0x3057, 0x3066, 0x5BA4, 0x5185, 0x306E, 0x82B1, 0x7C89,
      0x4FB5, 0x5165, 0x3092, 0x6291, 0x3048, 0x308B, 0x3068, 0x5B89, 0x5FC3, 0x3067,
      0x3059, 0x3002]"
| "riskAdvice Hikui =
     [0x6BD4, 0x8F03, 0x7684, 0x7A4F, 0x3084, 0x304B, 0x3067, 0x3059, 0x304C, 0x3001,
      0x75C7, 0x72B6, 0x304C, 0x51FA, 0x3084, 0x3059, 0x3044, 0x65B9, 0x306F, 0x4E88,
      0x9632, 0x85AC, 0x3092, 0x7D99, 0x7D9A, 0x3057, 0x3066, 0x304F, 0x3060, 0x3055,
      0x3044, 0x3002]"

definition seasonalBase :: "number \<Rightarrow> number" where
  "seasonalBase month =
     (if month \<ge> 2 \<and> month \<le> 4 then 48
      else if month = 5 then 36
      else if month \<ge> 6 \<and> month \<le> 9 then 16
      else 10)"

text \<open>
  The running total of \<^verbatim>\<open>estimateRisk\<close>: the local variable \<^verbatim>\<open>score\<close> after the five
  clamped contributions and the two penalties, before it is clamped and rounded. Each
  \<^verbatim>\<open>score += ...\<close> of the source is one rebinding here, in the source's order.
\<close>

definition runningScore :: "RiskInput \<Rightarrow> number" where
  "runningScore input =
     (let month = of_nat (getMonth (RiskInput.date input)) + 1;
          score = seasonalBase month;
          score = score + clamp ((temperature input - 12) * 1.8) (- 6) 22;
          score = score + clamp ((wind input - 2) * 2.9) 0 20;
          score = score + clamp ((48 - humidity input) * 0.6) 0 15;
          score = score + clamp ((pm25 input - 15) * 0.4) 0 9;
          score = score + clamp ((pm10 input - 30) * 0.25) 0 8;
          score = (if precipitation input > 0 then score - 16 else score);
          score = (if humidity input \<ge> 70 then score - 6 else score)
      in score)"

definition estimateRisk :: "RiskInput \<Rightarrow> RiskResult" where
  "estimateRisk input =
     (let normalized = Math_round (clamp (runningScore input) 0 100);
          level = riskLevel normalized
      in \<lparr>RiskResult.score = normalized, level = level, advice = riskAdvice level\<rparr>)"




section \<open>Array and string operations of the source language\<close>

text \<open>\<^verbatim>\<open>xs.includes(x)\<close> and \<^verbatim>\<open>xs.some(p)\<close>.\<close>

primrec includes' :: "'a list \<Rightarrow> 'a \<Rightarrow> bool" where
  "includes' [] x = False"
| "includes' (y # ys) x = (y = x \<or> includes' ys x)"

primrec some :: "'a list \<Rightarrow> ('a \<Rightarrow> bool) \<Rightarrow> bool" where
  "some [] p = False"
| "some (y # ys) p = (p y \<or> some ys p)"

text \<open>\<^verbatim>\<open>xs.slice(start, end)\<close> for indices that are not negative.\<close>

definition slice :: "'a list \<Rightarrow> nat \<Rightarrow> nat \<Rightarrow> 'a list" where
  "slice xs start end' = take (end' - start) (drop start xs)"

text \<open>
  \<^verbatim>\<open>xs.sort(cmp)\<close>. The sort of the language is stable, and for a comparator that is
  a consistent ordering its result is the sorted arrangement of \<open>xs\<close> in which elements
  that compare equal keep their order: an insertion sort that puts each element in
  front of the first element to its right that it does not compare greater than.
\<close>

primrec insertSorted :: "('a \<Rightarrow> 'a \<Rightarrow> number) \<Rightarrow> 'a \<Rightarrow> 'a list \<Rightarrow> 'a list" where
  "insertSorted cmp x [] = [x]"
| "insertSorted cmp x (y # ys) =
     (if cmp x y \<le> 0 then x # y # ys else y # insertSorted cmp x ys)"

definition sort' :: "'a list \<Rightarrow> ('a \<Rightarrow> 'a \<Rightarrow> number) \<Rightarrow> 'a list" where
  "sort' xs cmp = foldr (insertSorted cmp) xs []"

text \<open>
  \<^verbatim>\<open>Number(x.toFixed(1))\<close>: \<^verbatim>\<open>toFixed\<close> takes the sign off, picks the integer \<open>n\<close> with
  \<open>n / 10\<close> nearest to the magnitude (the larger \<open>n\<close> on a tie) and prints sign, \<open>n\<close>
  and one decimal; \<^verbatim>\<open>Number\<close> reads that back.
\<close>

definition toFixed1 :: "number \<Rightarrow> number" where
  "toFixed1 x =
     (if x < 0 then - (of_int \<lfloor>- x * 10 + 1 / 2\<rfloor> / 10)
      else of_int \<lfloor>x * 10 + 1 / 2\<rfloor> / 10)"

text \<open>
  \<^verbatim>\<open>s.trim()\<close> drops the white space and line terminators at both ends of a string.
\<close>

definition isWhiteSpace :: "16 word \<Rightarrow> bool" where
  "isWhiteSpace c =
     (includes' [0x0009, 0x000A, 0x000B, 0x000C, 0x000D, 0x0020, 0x00A0, 0x1680,
                0x2028, 0x2029, 0x202F, 0x205F, 0x3000, 0xFEFF] c
      \<or> (0x2000 \<le> c \<and> c \<le> 0x200A))"

definition trim :: "jsstring \<Rightarrow> jsstring" where
  "trim s = rev (dropWhile isWhiteSpace (rev (dropWhile isWhiteSpace s)))"


section \<open>Pollen types\<close>

definition cedarType :: PollenType where
  "cedarType =
     \<lparr>id' = Cedar,
      name = [0x30B9, 0x30AE],
      seasonMonths = [2, 3, 4],
      peakMonths = [2, 3],
      description =
        [0x65E5, 0x672C, 0x3067, 0x6700, 0x3082, 0x60A3, 0x8005, 0x6570, 0x304C, 0x591A,
         0x3044, 0x4EE3, 0x8868, 0x7684, 0x306A, 0x82B1, 0x7C89, 0x3002, 0x65E9, 0x6625,
         0x304B, 0x3089, 0x6025, 0x5897, 0x3057, 0x307E, 0x3059, 0x3002],
      care =
        [0x671D, 0x306E, 0x98DB, 0x6563, 0x30D4, 0x30FC, 0x30AF, 0x524D, 0x306B, 0x6D17,
         0x6FEF, 0x30FB, 0x63DB, 0x6C17, 0x3092, 0x6E08, 0x307E, 0x305B, 0x308B, 0x3068,
         0x60AA, 0x5316, 0x3092, 0x9632, 0x304E, 0x3084, 0x3059, 0x3044, 0x3067, 0x3059,
         0x3002]\<rparr>"

definition cypressType :: PollenType where
  "cypressType =
     \<lparr>id' = Cypress,
      name = [0x30D2, 0x30CE, 0x30AD],
      seasonMonths = [3, 4, 5],
      peakMonths = [4],
      description =
        [0x30B9, 0x30AE, 0x306E, 0x5F8C, 0x306B, 0x98DB, 0x6563, 0x304C, 0x5F37, 0x307E,
         0x308A, 0x3001, 0x75C7, 0x72B6, 0x304C, 0x9577, 0x5F15, 0x304F, 0x8981, 0x56E0,
         0x306B, 0x306A, 0x308A, 0x3084, 0x3059, 0x3044, 0x82B1, 0x7C89, 0x3067, 0x3059,
         0x3002],
      care =
        [0x0034, 0x6708, 0x4EE5, 0x964D, 0x3082, 0x81EA, 0x5DF1, 0x5224, 0x65AD, 0x3067,
         0x85AC, 0x3092, 0x3084, 0x3081, 0x305A, 0x3001, 0x5C31, 0x5BDD, 0x524D, 0x306E,
         0x9F3B, 0x6D17, 0x6D44, 0x3092, 0x7D99, 0x7D9A, 0x3057, 0x307E, 0x3057, 0x3087,
         0x3046, 0x3002]\<rparr>"

definition grassType :: PollenType where
  "grassType =
     \<lparr>id' = Grass,
      name = [0x30A4, 0x30CD, 0x79D1],
      seasonMonths = [4, 5, 6, 7, 8],
      peakMonths = [5, 6],
      description =
        [0x6CB3, 0x5DDD, 0x6577, 0x3084, 0x8349, 0x5730, 0x306E, 0x8FD1, 0x304F, 0x3067,
         0x53CD, 0x5FDC, 0x3057, 0x3084, 0x3059, 0x304F, 0x3001, 0x521D, 0x590F, 0x307E,
         0x3067, 0x9577, 0x304F, 0x7D9A, 0x304D, 0x307E, 0x3059, 0x3002],
      care =
        [0x8349, 0x5730, 0x306B, 0x8FD1, 0x3044, 0x30EB, 0x30FC, 0x30C8, 0x3092, 0x907F,
         0x3051, 0x3001, 0x5E30, 0x5B85, 0x6642, 0x306B, 0x9774, 0x3068, 0x88FE, 0x306E,
         0x82B1, 0x7C89, 0x3092, 0x843D, 0x3068, 0x3057, 0x3066, 0x304F, 0x3060, 0x3055,
         0x3044, 0x3002]\<rparr>"

definition ragweedType :: PollenType where
  "ragweedType =
     \<lparr>id' = Ragweed,
      name = [0x30D6, 0x30BF, 0x30AF, 0x30B5],
      seasonMonths = [8, 9, 10],
      peakMonths = [9],
      description =
        [0x79CB, 0x306B, 0x5897, 0x3048, 0x308B, 0x4EE3, 0x8868, 0x82B1, 0x7C89, 0x3067,
         0x3001, 0x671D, 0x5915, 0x306E, 0x6563, 0x6B69, 0x3067, 0x75C7, 0x72B6, 0x304C,
         0x51FA, 0x308B, 0x65B9, 0x304C, 0x591A, 0x3044, 0x3067, 0x3059, 0x3002],
      care =
        [0x79CB, 0x306F, 0x7A93, 0x958B, 0x3051, 0x63DB, 0x6C17, 0x306E, 0x6642, 0x9593,
         0x5E2F, 0x3092, 0x663C, 0x306B, 0x5BC4, 0x305B, 0x308B, 0x3068, 0x5438, 0x5165,
         0x91CF, 0x3092, 0x6E1B, 0x3089, 0x3057, 0x3084, 0x3059, 0x3044, 0x3067, 0x3059,
         0x3002]\<rparr>"

definition birchType :: PollenType where
  "birchType =
     \<lparr>id' = Birch,
      name = [0x30B7, 0x30E9, 0x30AB, 0x30F3, 0x30D0],
      seasonMonths = [4, 5, 6],
      peakMonths = [5],
      description =
        [0x5317, 0x6D77, 0x9053, 0x30FB, 0x6771, 0x5317, 0x3067, 0x6CE8, 0x610F, 0x3055,
         0x308C, 0x308B, 0x82B1, 0x7C89, 0x3002, 0x5730, 0x57DF, 0x306B, 0x3088, 0x308A,
         0x4F53, 0x611F, 0x5DEE, 0x304C, 0x5927, 0x304D, 0x3044, 0x3067, 0x3059, 0x3002],
      care =
        [0x76EE, 0x306E, 0x304B, 0x3086, 0x307F, 0x304C, 0x5F37, 0x3044, 0x65E5, 0x306F,
         0x9632, 0x98A8, 0x30E1, 0x30AC, 0x30CD, 0x3068, 0x4EBA, 0x5DE5, 0x6D99, 0x6DB2,
         0x3092, 0x4F75, 0x7528, 0x3057, 0x3066, 0x304F, 0x3060, 0x3055, 0x3044, 0x3002]\<rparr>"

definition pollenCatalog :: "PollenType list" where
  "pollenCatalog = [cedarType, cypressType, grassType, ragweedType, birchType]"

definition monthDistance :: "number \<Rightarrow> number \<Rightarrow> number" where
  "monthDistance a b = (let distance = \<bar>a - b\<bar> in min distance (12 - distance))"

definition seasonalFactor :: "number \<Rightarrow> number list \<Rightarrow> number" where
  "seasonalFactor currentMonth seasonMonths' =
     (if includes' seasonMonths' currentMonth then 1
      else if some seasonMonths' (\<lambda>month. monthDistance month currentMonth = 1) then 0.44
      else if some seasonMonths' (\<lambda>month. monthDistance month currentMonth = 2) then 0.2
      else 0)"

text \<open>\<^verbatim>\<open>weather\<close> is a snapshot or \<^verbatim>\<open>null\<close>.\<close>

definition estimatePollenTypeScore ::
    "PollenType \<Rightarrow> number \<Rightarrow> WeatherSnapshot option \<Rightarrow> number \<Rightarrow> number" where
  "estimatePollenTypeScore type currentMonth weather overallRiskScore =
     (let season = seasonalFactor currentMonth (seasonMonths type);
          windBoost = (case weather of Some w \<Rightarrow> clamp ((wind w - 2) * 6) 0 18 | None \<Rightarrow> 6);
          dryBoost =
            (case weather of Some w \<Rightarrow> clamp ((50 - humidity w) * 0.35) 0 12 | None \<Rightarrow> 4);
          rainPenalty =
            (case weather of Some w \<Rightarrow> (if precipitation w > 0 then 12 else 0) | None \<Rightarrow> 0)
      in Math_round
           (clamp (season * 72 + overallRiskScore * 0.22 + windBoost + dryBoost - rainPenalty)
              0 100))"

text \<open>
  The status list of the page. It reads the clock (\<open>now\<close>, for the month), the current
  snapshot and today's risk; the latter two are \<^verbatim>\<open>null\<close> until the first fetch has
  succeeded. \<open>toStatus\<close> is the function mapped over the catalog.
\<close>

definition toStatus ::
    "number \<Rightarrow> WeatherSnapshot option \<Rightarrow> number \<Rightarrow> PollenType \<Rightarrow> PollenTypeStatus" where
  "toStatus month weather overall type =
     (let score = estimatePollenTypeScore type month weather overall
      in \<lparr>id' = id' type, name = name type, seasonMonths = seasonMonths type,
          peakMonths = peakMonths type, description = description type, care = care type,
          PollenTypeStatus.score = score, level = riskLevel score\<rparr>)"

definition pollenTypeStatus ::
    "Date \<Rightarrow> WeatherSnapshot option \<Rightarrow> RiskResult option \<Rightarrow> PollenTypeStatus list" where
  "pollenTypeStatus now weather todayRisk =
     (let month = of_nat (getMonth now) + 1;
          overall = (case todayRisk of Some r \<Rightarrow> RiskResult.score r | None \<Rightarrow> 40)
      in sort' (map (toStatus month weather overall) pollenCatalog)
           (\<lambda>a b. PollenTypeStatus.score b - PollenTypeStatus.score a))"


section \<open>Map scores\<close>

text \<open>
  \<open>monthScale\<close> and \<open>effectiveSuitability\<close> are the local constants of
  \<^verbatim>\<open>adjustMapRiskScore\<close> of the same names.
\<close>

definition monthScale :: "number \<Rightarrow> number" where
  "monthScale month =
     (if month \<ge> 2 \<and> month \<le> 4 then 1
      else if month = 5 then 0.78
      else if month \<ge> 8 \<and> month \<le> 10 then 0.55
      else 0.35)"

definition effectiveSuitability :: "number \<Rightarrow> number \<Rightarrow> number" where
  "effectiveSuitability suitability month = clamp (suitability * monthScale month) 0.15 1"

definition adjustMapRiskScore :: "number \<Rightarrow> number \<Rightarrow> number \<Rightarrow> number" where
  "adjustMapRiskScore rawScore suitability month =
     (let effective = effectiveSuitability suitability month;
          baseline = 14
      in Math_round (clamp (rawScore * effective + baseline * (1 - effective)) 0 100))"


section \<open>Symptom history\<close>

text \<open>The trend of the history, \<^verbatim>\<open>null\<close> being \<open>None\<close>.\<close>

definition trend :: "SymptomLog list \<Rightarrow> number option" where
  "trend logs' =
     (if length logs' < 6 then None
      else
        let latest = slice logs' 0 3;
            previous = slice logs' 3 6;
            latestAvg = foldl (\<lambda>sum item. sum + severity item) 0 latest / 3;
            previousAvg = foldl (\<lambda>sum item. sum + severity item) 0 previous / 3;
            delta = toFixed1 (latestAvg - previousAvg)
        in Some delta)"

text \<open>
  Submitting the log form. \<open>today\<close> is the calendar date of the clock in the
  Asia/Tokyo time zone at the moment of the call, \<^verbatim>\<open>toJstDateString(new Date())\<close>, as
  \<^verbatim>\<open>YYYY-MM-DD\<close>.
\<close>

definition submitLog :: "jsstring \<Rightarrow> Home \<Rightarrow> Home" where
  "submitLog today st =
     (let item = \<lparr>SymptomLog.date = today, severity = symptomSeverity st,
                  tookMedicine = Home.tookMedicine st, memo = trim (Home.memo st)\<rparr>;
          filtered = filter (\<lambda>entry. SymptomLog.date entry \<noteq> today) (logs st)
      in st\<lparr>logs := slice (item # filtered) 0 30, Home.memo := []\<rparr>)"

text \<open>
  A day of use: the user fills the form (severity, medicine, memo) and submits it on the
  date \<open>day\<close>; a history of use is a list of such days, oldest first.
\<close>

record Submission =
  day :: jsstring
  severity :: number
  tookMedicine :: bool
  memo :: jsstring

definition fillAndSubmit :: "Submission \<Rightarrow> Home \<Rightarrow> Home" where
  "fillAndSubmit sub st =
     submitLog (day sub)
       (st\<lparr>symptomSeverity := Submission.severity sub,
           Home.tookMedicine := Submission.tookMedicine sub,
           Home.memo := Submission.memo sub\<rparr>)"

definition entryOf :: "Submission \<Rightarrow> SymptomLog" where
  "entryOf sub =
     \<lparr>SymptomLog.date = day sub, severity = Submission.severity sub,
      tookMedicine = Submission.tookMedicine sub, memo = trim (Submission.memo sub)\<rparr>"

text \<open>An ASCII string as code units, for writing dates.\<close>

definition utf16 :: "string \<Rightarrow> jsstring" where
  "utf16 s = map of_char s"


section \<open>Concrete inputs\<close>

text \<open>
  The snapshot of the specification's worked example, on a day in March: temperature 20,
  humidity 40, wind 5, no precipitation, PM10 30, PM2.5 15.
\<close>

definition exampleInput :: RiskInput where
  "exampleInput =
     \<lparr>temperature = 20, humidity = 40, wind = 5, precipitation = 0, pm10 = 30, pm25 = 15,
      RiskInput.date = \<lparr>getMonth = 2\<rparr>\<rparr>"



text \<open>Dates of March 2026, and a history of six days, newest first.\<close>

definition marchDate :: "nat \<Rightarrow> jsstring" where
  "marchDate d = utf16 ''2026-03-'' @ [of_nat (48 + d div 10), of_nat (48 + d mod 10)]"

definition logOn :: "nat \<Rightarrow> number \<Rightarrow> SymptomLog" where
  "logOn d sev =
     \<lparr>SymptomLog.date = marchDate d, severity = sev, tookMedicine = False, memo = []\<rparr>"

definition exampleLogs :: "SymptomLog list" where
  "exampleLogs = [logOn 6 5, logOn 5 6, logOn 4 7, logOn 3 2, logOn 2 3, logOn 1 3]"


text \<open>
  A page state whose form holds severity 4, medicine taken and the memo \<^verbatim>\<open>" ok "\<close>, over
  the history above; and a month of use, one submission on each day of March.
\<close>

definition exampleHome :: Home where
  "exampleHome =
     \<lparr>symptomSeverity = 4, Home.tookMedicine = True, memo = utf16 '' ok '',
      logs = exampleLogs\<rparr>"

definition marchSubmissions :: "Submission list" where
  "marchSubmissions =
     map (\<lambda>d. \<lparr>day = marchDate d, severity = 4, tookMedicine = False, memo = []\<rparr>)
       [1, 2, 3, 4, 5, 6, 7, 8, 9, 10, 11, 12, 13, 14, 15, 16, 17, 18, 19, 20, 21,
        22, 23, 24, 25, 26, 27, 28, 29, 30, 31]"

text \<open>A day in April.\<close>

definition april :: Date where
  "april = \<lparr>getMonth = 3\<rparr>"


section \<open>Properties of the risk score\<close>

lemma clamp_bounds: "lo \<le> hi \<Longrightarrow> lo \<le> clamp v lo hi \<and> clamp v lo hi \<le> hi"
  by (simp add: clamp_def)

lemma clamp_mono: "v \<le> w \<Longrightarrow> clamp v lo hi \<le> clamp w lo hi"
  by (auto simp add: clamp_def min_def max_def)

lemma Math_round_mono: "x \<le> y \<Longrightarrow> Math_round x \<le> Math_round y"
  by (simp add: Math_round_def floor_mono)

lemma Math_round_int: "Math_round x \<in> \<int>"
  by (simp add: Math_round_def)

lemma Math_round_range:
  assumes "0 \<le> x" and "x \<le> of_int n"
  shows "0 \<le> Math_round x \<and> Math_round x \<le> of_int n"
proof -
  have "(0::int) \<le> \<lfloor>x + 1 / 2\<rfloor>"
    using assms(1) by (simp add: le_floor_iff)
  moreover have "\<lfloor>x + 1 / 2\<rfloor> \<le> n"
  proof -
    have "x + 1 / 2 < of_int (n + 1)" using assms(2) by simp
    then have "\<lfloor>x + 1 / 2\<rfloor> < n + 1" by (simp only: floor_less_iff)
    then show ?thesis by simp
  qed
  ultimately show ?thesis
    by (simp add: Math_round_def)
qed

lemma score_estimateRisk:
  "RiskResult.score (estimateRisk input) = Math_round (clamp (runningScore input) 0 100)"
  by (simp add: estimateRisk_def Let_def)

lemma level_estimateRisk:
  "RiskResult.level (estimateRisk input) = riskLevel (RiskResult.score (estimateRisk input))"
  by (simp add: estimateRisk_def Let_def)

lemma runningScore_wind_mono:
  "w1 \<le> w2 \<Longrightarrow> runningScore (input\<lparr>wind := w1\<rparr>) \<le> runningScore (input\<lparr>wind := w2\<rparr>)"
  by (simp add: runningScore_def Let_def clamp_mono)

lemma dryness_antimono:
  "h1 \<le> h2 \<Longrightarrow> clamp ((48 - h2) * 0.6) 0 15 \<le> clamp ((48 - h1) * 0.6) 0 15"
  by (rule clamp_mono) simp

lemma runningScore_humidity_antimono:
  assumes "h1 \<le> h2"
  shows "runningScore (input\<lparr>humidity := h2\<rparr>) \<le> runningScore (input\<lparr>humidity := h1\<rparr>)"
  using dryness_antimono [OF assms] assms
  by (simp add: runningScore_def Let_def)

lemma score_mono:
  assumes "runningScore a \<le> runningScore b"
  shows "RiskResult.score (estimateRisk a) \<le> RiskResult.score (estimateRisk b)"
  unfolding score_estimateRisk using assms by (intro Math_round_mono clamp_mono)

text \<open>
  C1. For every input, the score that \<open>estimateRisk\<close> returns is an integer between 0
  and 100, and the level it returns is the one the fixed thresholds give for that score:
  the highest level from 75, the high level from 55 and below 75, the elevated level from
  35 and below 55, the low level below 35. A score on a threshold belongs to the higher
  level.
\<close>

theorem estimateRisk_score_level:
  fixes input :: RiskInput
  defines "s \<equiv> RiskResult.score (estimateRisk input)"
    and "l \<equiv> RiskResult.level (estimateRisk input)"
  shows "s \<in> \<int> \<and> 0 \<le> s \<and> s \<le> 100
    \<and> (75 \<le> s \<longrightarrow> l = HijoniTakai)
    \<and> (55 \<le> s \<and> s < 75 \<longrightarrow> l = Takai)
    \<and> (35 \<le> s \<and> s < 55 \<longrightarrow> l = YayaTakai)
    \<and> (s < 35 \<longrightarrow> l = Hikui)"
proof -
  have "0 \<le> clamp (runningScore input) 0 100
      \<and> clamp (runningScore input) 0 100 \<le> of_int 100"
    using clamp_bounds [of 0 100 "runningScore input"] by simp
  then have "0 \<le> s \<and> s \<le> of_int 100"
    unfolding s_def score_estimateRisk by (intro Math_round_range) simp_all
  moreover have "s \<in> \<int>"
    unfolding s_def score_estimateRisk by (rule Math_round_int)
  moreover have "l = riskLevel s"
    unfolding s_def l_def by (rule level_estimateRisk)
  ultimately show ?thesis
    by (simp add: riskLevel_def)
qed

text \<open>
  One input for each level: the worked example (score 76), the same with rain (60), with
  rain and 5 degrees (40), and with rain and 5 degrees in August (8).
\<close>

theorem estimateRisk_score_level_witness:
  "RiskResult.score (estimateRisk exampleInput) = 76
   \<and> RiskResult.level (estimateRisk exampleInput) = HijoniTakai
   \<and> RiskResult.score (estimateRisk (exampleInput\<lparr>precipitation := 2\<rparr>)) = 60
   \<and> RiskResult.level (estimateRisk (exampleInput\<lparr>precipitation := 2\<rparr>)) = Takai
   \<and> RiskResult.score (estimateRisk (exampleInput\<lparr>temperature := 5, precipitation := 2\<rparr>)) = 40
   \<and> RiskResult.level (estimateRisk (exampleInput\<lparr>temperature := 5, precipitation := 2\<rparr>))
       = YayaTakai
   \<and> RiskResult.score (estimateRisk (exampleInput\<lparr>temperature := 5, precipitation := 2,
         RiskInput.date := \<lparr>getMonth = 7\<rparr>\<rparr>)) = 8
   \<and> RiskResult.level (estimateRisk (exampleInput\<lparr>temperature := 5, precipitation := 2,
         RiskInput.date := \<lparr>getMonth = 7\<rparr>\<rparr>)) = Hikui"
proof -
  let ?a = "exampleInput"
  let ?b = "exampleInput\<lparr>precipitation := 2\<rparr>"
  let ?c = "exampleInput\<lparr>temperature := 5, precipitation := 2\<rparr>"
  let ?d = "exampleInput\<lparr>temperature := 5, precipitation := 2,
    RiskInput.date := \<lparr>getMonth = 7\<rparr>\<rparr>"
  have a: "RiskResult.score (estimateRisk ?a) = 76" by code_simp
  have b: "RiskResult.score (estimateRisk ?b) = 60" by code_simp
  have c: "RiskResult.score (estimateRisk ?c) = 40" by code_simp
  have d: "RiskResult.score (estimateRisk ?d) = 8" by code_simp
  have "RiskResult.level (estimateRisk ?a) = HijoniTakai"
    using estimateRisk_score_level [of ?a] a by simp
  moreover have "RiskResult.level (estimateRisk ?b) = Takai"
    using estimateRisk_score_level [of ?b] b by simp
  moreover have "RiskResult.level (estimateRisk ?c) = YayaTakai"
    using estimateRisk_score_level [of ?c] c by simp
  moreover have "RiskResult.level (estimateRisk ?d) = Hikui"
    using estimateRisk_score_level [of ?d] d by simp
  ultimately show ?thesis
    using a b c d by simp
qed

text \<open>
  C3. On the worked example (temperature 20, humidity 40, wind 5, precipitation 0, PM10 30,
  PM2.5 15, March) \<open>estimateRisk\<close> returns score 76 and the highest level; with
  precipitation 2 instead it returns score 60 and the high level.
\<close>

theorem estimateRisk_example:
  "RiskResult.score (estimateRisk exampleInput) = 76
   \<and> RiskResult.level (estimateRisk exampleInput) = HijoniTakai
   \<and> RiskResult.score (estimateRisk (exampleInput\<lparr>precipitation := 2\<rparr>)) = 60
   \<and> RiskResult.level (estimateRisk (exampleInput\<lparr>precipitation := 2\<rparr>)) = Takai"
  by code_simp

text \<open>
  C7. With every other input fixed, a higher wind speed never gives a lower score. The
  wind term, the clamped \<open>(wind - 2) * 2.9\<close>, is never negative: the running total at
  any wind speed is at least the running total at wind speed 2, where the term is 0.
\<close>

theorem estimateRisk_wind_mono:
  "w1 \<le> w2 \<Longrightarrow>
   RiskResult.score (estimateRisk (input\<lparr>wind := w1\<rparr>))
     \<le> RiskResult.score (estimateRisk (input\<lparr>wind := w2\<rparr>))
   \<and> runningScore (input\<lparr>wind := 2\<rparr>) \<le> runningScore (input\<lparr>wind := w1\<rparr>)
   \<and> 0 \<le> clamp ((w1 - 2) * 2.9) 0 20"
proof (intro conjI)
  assume "w1 \<le> w2"
  then show "RiskResult.score (estimateRisk (input\<lparr>wind := w1\<rparr>))
      \<le> RiskResult.score (estimateRisk (input\<lparr>wind := w2\<rparr>))"
    by (intro score_mono runningScore_wind_mono)
next
  have "0 \<le> clamp ((w1 - 2) * 2.9) 0 20"
    using clamp_bounds [of 0 20] by simp
  then show "runningScore (input\<lparr>wind := 2\<rparr>) \<le> runningScore (input\<lparr>wind := w1\<rparr>)"
    by (simp add: runningScore_def Let_def clamp_def)
next
  show "0 \<le> clamp ((w1 - 2) * 2.9) 0 20"
    using clamp_bounds [of 0 20] by simp
qed

text \<open>The worked example with wind 2 (score 67) and with wind 5 (score 76).\<close>

theorem estimateRisk_wind_mono_witness:
  "(2::number) \<le> 5
   \<and> RiskResult.score (estimateRisk (exampleInput\<lparr>wind := 2\<rparr>)) = 67
   \<and> RiskResult.score (estimateRisk (exampleInput\<lparr>wind := 5\<rparr>)) = 76
   \<and> RiskResult.score (estimateRisk (exampleInput\<lparr>wind := 2\<rparr>))
       \<le> RiskResult.score (estimateRisk (exampleInput\<lparr>wind := 5\<rparr>))"
proof -
  have "RiskResult.score (estimateRisk (exampleInput\<lparr>wind := 2\<rparr>)) = 67"
    and "RiskResult.score (estimateRisk (exampleInput\<lparr>wind := 5\<rparr>)) = 76"
    by code_simp+
  then show ?thesis
    using estimateRisk_wind_mono [of 2 5 exampleInput] by simp
qed












text \<open>
  C10. With every other input fixed, a higher humidity never gives a higher score.
\<close>

theorem estimateRisk_humidity_antimono:
  "h1 \<le> h2 \<Longrightarrow>
   RiskResult.score (estimateRisk (input\<lparr>humidity := h2\<rparr>))
     \<le> RiskResult.score (estimateRisk (input\<lparr>humidity := h1\<rparr>))"
  by (rule score_mono) (rule runningScore_humidity_antimono)

theorem estimateRisk_humidity_antimono_witness:
  "(40::number) \<le> 75
   \<and> RiskResult.score (estimateRisk (exampleInput\<lparr>humidity := 75\<rparr>))
       \<le> RiskResult.score (estimateRisk (exampleInput\<lparr>humidity := 40\<rparr>))"
  using estimateRisk_humidity_antimono [of 40 75 exampleInput] by simp


section \<open>Properties of the seasonal factor\<close>

lemma includes'_set: "includes' xs x \<longleftrightarrow> x \<in> set xs"
  by (induction xs) auto

lemma some_set: "some xs p \<longleftrightarrow> (\<exists>x \<in> set xs. p x)"
  by (induction xs) auto

text \<open>
  C4. For a taxon whose season months are 2, 3 and 4 (in any order), \<open>seasonalFactor\<close>
  is 1 in the months 2, 3 and 4, 0.44 in the months 1 and 5, 0.2 in the months 12 and 6,
  and 0 in month 8.
\<close>

theorem seasonalFactor_season_234:
  assumes "set ms = {2, 3, 4}"
  shows "seasonalFactor 2 ms = 1 \<and> seasonalFactor 3 ms = 1 \<and> seasonalFactor 4 ms = 1
    \<and> seasonalFactor 1 ms = 0.44 \<and> seasonalFactor 5 ms = 0.44
    \<and> seasonalFactor 12 ms = 0.2 \<and> seasonalFactor 6 ms = 0.2
    \<and> seasonalFactor 8 ms = 0"
  using assms by (simp add: seasonalFactor_def includes'_set some_set monthDistance_def)

text \<open>The cedar of the catalog is such a taxon.\<close>

theorem seasonalFactor_season_234_witness:
  "set (seasonMonths cedarType) = {2, 3, 4}
    \<and> seasonalFactor 3 (seasonMonths cedarType) = 1
    \<and> seasonalFactor 1 (seasonMonths cedarType) = 0.44
    \<and> seasonalFactor 5 (seasonMonths cedarType) = 0.44
    \<and> seasonalFactor 12 (seasonMonths cedarType) = 0.2
    \<and> seasonalFactor 6 (seasonMonths cedarType) = 0.2
    \<and> seasonalFactor 8 (seasonMonths cedarType) = 0"
proof -
  have "set (seasonMonths cedarType) = {2, 3, 4}"
    by (simp add: cedarType_def)
  then show ?thesis
    using seasonalFactor_season_234 [of "seasonMonths cedarType"] by simp
qed


section \<open>Properties of the map score\<close>

lemma Math_round_eq_iff:
  "Math_round x = of_int n \<longleftrightarrow> of_int n - 1 / 2 \<le> x \<and> x < of_int n + 1 / 2"
  unfolding Math_round_def by (simp add: floor_eq_iff) linarith

lemma effectiveSuitability_zero: "effectiveSuitability 0 month = 0.15"
  by (simp add: effectiveSuitability_def clamp_def)

lemma adjustMapRiskScore_range:
  "adjustMapRiskScore rawScore suitability month \<in> \<int>
   \<and> 0 \<le> adjustMapRiskScore rawScore suitability month
   \<and> adjustMapRiskScore rawScore suitability month \<le> 100"
proof -
  let ?v = "rawScore * effectiveSuitability suitability month
     + 14 * (1 - effectiveSuitability suitability month)"
  have "0 \<le> clamp ?v 0 100 \<and> clamp ?v 0 100 \<le> of_int 100"
    using clamp_bounds [of 0 100 ?v] by simp
  then have "0 \<le> Math_round (clamp ?v 0 100) \<and> Math_round (clamp ?v 0 100) \<le> of_int 100"
    by (intro Math_round_range) simp_all
  then show ?thesis
    by (simp add: adjustMapRiskScore_def Let_def Math_round_int)
qed

lemma adjustMapRiskScore_unsuitable:
  "adjustMapRiskScore rawScore 0 month = Math_round (clamp (rawScore * 0.15 + 11.9) 0 100)"
  by (simp add: adjustMapRiskScore_def Let_def effectiveSuitability_zero)

lemma adjustMapRiskScore_unsuitable_14:
  "adjustMapRiskScore rawScore 0 month = 14 \<longleftrightarrow> 32 / 3 \<le> rawScore \<and> rawScore < 52 / 3"
proof -
  have "adjustMapRiskScore rawScore 0 month = of_int 14
     \<longleftrightarrow> of_int 14 - 1 / 2 \<le> clamp (rawScore * 0.15 + 11.9) 0 100
       \<and> clamp (rawScore * 0.15 + 11.9) 0 100 < of_int 14 + 1 / 2"
    unfolding adjustMapRiskScore_unsuitable by (rule Math_round_eq_iff)
  also have "\<dots> \<longleftrightarrow> 32 / 3 \<le> rawScore \<and> rawScore < 52 / 3"
    by (auto simp add: clamp_def min_def max_def)
  finally show ?thesis by simp
qed

text \<open>
  C2, as the specification states it, fails: with suitability 0 in March the raw score 15
  gives the result 14, the baseline, although the raw score is not 14. The blend is
  \<open>15 * 0.15 + 14 * 0.85 = 14.15\<close>, and the rounding takes it to 14.
\<close>

theorem adjustMapRiskScore_baseline_counterexample:
  "adjustMapRiskScore 15 0 3 = 14 \<and> (15 :: number) \<noteq> 14"
  by code_simp

lemma Math_round_of_int: "Math_round (of_int n) = of_int n"
proof -
  have "\<lfloor>of_int n + 1 / 2 :: rat\<rfloor> = n"
    by (rule floor_unique) simp_all
  then show ?thesis
    by (simp only: Math_round_def)
qed

lemma adjustMapRiskScore_unsuitable_between:
  assumes "rawScore \<in> \<int>"
  shows "min rawScore 14 \<le> adjustMapRiskScore rawScore 0 month
    \<and> adjustMapRiskScore rawScore 0 month \<le> max rawScore 14"
proof -
  obtain n :: int where n: "rawScore = of_int n"
    using assms by (auto elim: Ints_cases)
  let ?v = "clamp (rawScore * 0.15 + 11.9) 0 100"
  show ?thesis
  proof (cases "14 \<le> rawScore")
    case True
    then have lo: "of_int 14 \<le> ?v" and hi: "?v \<le> of_int n"
      by (auto simp add: clamp_def min_def max_def n)
    have "Math_round (of_int 14) \<le> Math_round ?v"
      using lo by (rule Math_round_mono)
    moreover have "Math_round ?v \<le> Math_round (of_int n)"
      using hi by (rule Math_round_mono)
    ultimately have "14 \<le> Math_round ?v \<and> Math_round ?v \<le> rawScore"
      unfolding Math_round_of_int by (simp add: n)
    then show ?thesis
      using True by (simp add: adjustMapRiskScore_unsuitable)
  next
    case False
    then have lo: "of_int n \<le> ?v" and hi: "?v \<le> of_int 14"
      by (auto simp add: clamp_def min_def max_def n)
    have "Math_round (of_int n) \<le> Math_round ?v"
      using lo by (rule Math_round_mono)
    moreover have "Math_round ?v \<le> Math_round (of_int 14)"
      using hi by (rule Math_round_mono)
    ultimately have "rawScore \<le> Math_round ?v \<and> Math_round ?v \<le> 14"
      unfolding Math_round_of_int by (simp add: n)
    then show ?thesis
      using False by (simp add: adjustMapRiskScore_unsuitable)
  qed
qed

lemma adjustMapRiskScore_unsuitable_band:
  assumes "rawScore \<in> \<int>"
  shows "adjustMapRiskScore rawScore 0 month = 14 \<longleftrightarrow> 11 \<le> rawScore \<and> rawScore \<le> 17"
proof -
  obtain n :: int where n: "rawScore = of_int n"
    using assms by (auto elim: Ints_cases)
  have "(32 / 3 \<le> (of_int n :: rat)) = (11 \<le> n)" and "((of_int n :: rat) < 52 / 3) = (n \<le> 17)"
    by (simp_all add: field_simps) linarith+
  then show ?thesis
    unfolding adjustMapRiskScore_unsuitable_14 n by simp
qed

text \<open>
  C2, amended. For every raw score, suitability and month, \<open>adjustMapRiskScore\<close> returns
  an integer between 0 and 100. For suitability 0 and a month among 2, 3 and 4 the
  effective suitability is 0.15, the floor. Then, for a raw score that is a whole number
  (as the scores of \<open>estimateRisk\<close> are): the result is the rounded blend of raw score and
  baseline; it lies between the raw score and the baseline 14; the blend is 14 only for
  the raw score 14; and the result is 14 exactly for the raw scores 11 to 17.
\<close>

theorem adjustMapRiskScore_bound_and_floor:
  "adjustMapRiskScore rawScore suitability month \<in> \<int>
   \<and> 0 \<le> adjustMapRiskScore rawScore suitability month
   \<and> adjustMapRiskScore rawScore suitability month \<le> 100
   \<and> (month \<in> {2, 3, 4} \<longrightarrow>
        effectiveSuitability 0 month = 0.15
        \<and> (rawScore \<in> \<int> \<longrightarrow>
             adjustMapRiskScore rawScore 0 month
               = Math_round (clamp (rawScore * 0.15 + 14 * (1 - 0.15)) 0 100)
             \<and> min rawScore 14 \<le> adjustMapRiskScore rawScore 0 month
             \<and> adjustMapRiskScore rawScore 0 month \<le> max rawScore 14
             \<and> (rawScore * 0.15 + 14 * (1 - 0.15) = 14 \<longleftrightarrow> rawScore = 14)
             \<and> (adjustMapRiskScore rawScore 0 month = 14
                 \<longleftrightarrow> 11 \<le> rawScore \<and> rawScore \<le> 17)))"
proof -
  have "adjustMapRiskScore rawScore 0 month
      = Math_round (clamp (rawScore * 0.15 + 14 * (1 - 0.15)) 0 100)"
    by (simp add: adjustMapRiskScore_unsuitable)
  moreover have "rawScore * 0.15 + 14 * (1 - 0.15) = 14 \<longleftrightarrow> rawScore = 14"
    by auto
  ultimately show ?thesis
    using adjustMapRiskScore_range [of rawScore suitability month]
      effectiveSuitability_zero [of month]
      adjustMapRiskScore_unsuitable_between [of rawScore month]
      adjustMapRiskScore_unsuitable_band [of rawScore month]
    by blast
qed

text \<open>
  In March with suitability 0: the raw score 14 gives 14; the raw score 80 gives a
  result that is not 14 and lies between 14 and 80.
\<close>

theorem adjustMapRiskScore_bound_and_floor_witness:
  "(3 :: number) \<in> {2, 3, 4} \<and> (14 :: number) \<in> \<int> \<and> (80 :: number) \<in> \<int>
   \<and> effectiveSuitability 0 3 = 0.15
   \<and> adjustMapRiskScore 14 0 3 = 14
   \<and> adjustMapRiskScore 80 0 3 \<noteq> 14
   \<and> 14 \<le> adjustMapRiskScore 80 0 3
   \<and> adjustMapRiskScore 80 0 3 \<le> 80"
  using adjustMapRiskScore_bound_and_floor [of 14 0 3]
    adjustMapRiskScore_bound_and_floor [of 80 0 3]
  by simp


section \<open>Properties of the trend\<close>

lemma toFixed1_tenths: "\<exists>n::int. toFixed1 x = of_int n / 10"
proof (cases "x < 0")
  case True
  then have "toFixed1 x = of_int (- \<lfloor>- x * 10 + 1 / 2\<rfloor>) / 10"
    by (simp add: toFixed1_def)
  then show ?thesis by blast
next
  case False
  then have "toFixed1 x = of_int \<lfloor>x * 10 + 1 / 2\<rfloor> / 10"
    by (simp add: toFixed1_def)
  then show ?thesis by blast
qed

lemma toFixed1_near: "\<bar>toFixed1 x - x\<bar> \<le> 1 / 20"
proof -
  have *: "\<bar>of_int \<lfloor>y * 10 + 1 / 2\<rfloor> / 10 - y\<bar> \<le> 1 / 20" for y :: rat
  proof -
    define n where "n = \<lfloor>y * 10 + 1 / 2\<rfloor>"
    have "of_int n \<le> y * 10 + 1 / 2" "y * 10 + 1 / 2 < of_int n + 1"
      unfolding n_def by linarith+
    then have "of_int n / 10 - y \<le> 1 / 20" and "- (of_int n / 10 - y) \<le> 1 / 20"
      by linarith+
    then show ?thesis unfolding n_def [symmetric] by (rule abs_leI)
  qed
  show ?thesis
  proof (cases "x < 0")
    case True
    have "\<bar>toFixed1 x - x\<bar> = \<bar>of_int \<lfloor>(- x) * 10 + 1 / 2\<rfloor> / 10 - (- x)\<bar>"
      using True by (simp add: toFixed1_def abs_if)
    then show ?thesis using * [of "- x"] by simp
  next
    case False
    then show ?thesis using * [of x] by (simp add: toFixed1_def)
  qed
qed

lemma take3: "3 \<le> length xs \<Longrightarrow> take 3 xs = [xs ! 0, xs ! 1, xs ! 2]"
  by (cases xs; cases "tl xs"; cases "tl (tl xs)") auto

lemma trend_long:
  assumes "6 \<le> length ls"
  shows "trend ls = Some (toFixed1
     ((SymptomLog.severity (ls ! 0) + SymptomLog.severity (ls ! 1)
         + SymptomLog.severity (ls ! 2)) / 3
      - (SymptomLog.severity (ls ! 3) + SymptomLog.severity (ls ! 4)
         + SymptomLog.severity (ls ! 5)) / 3))"
proof -
  have a: "slice ls 0 3 = [ls ! 0, ls ! 1, ls ! 2]"
    using assms by (simp add: slice_def take3)
  have "slice ls 3 6 = take 3 (drop 3 ls)" by (simp add: slice_def)
  also have "\<dots> = [drop 3 ls ! 0, drop 3 ls ! 1, drop 3 ls ! 2]"
    using assms by (intro take3) simp
  also have "\<dots> = [ls ! 3, ls ! 4, ls ! 5]"
    using assms by simp
  finally have b: "slice ls 3 6 = [ls ! 3, ls ! 4, ls ! 5]" .
  show ?thesis using assms by (simp add: trend_def Let_def a b)
qed

text \<open>
  C6. For a history \<open>ls\<close>, newest first: with fewer than 6 entries the trend is
  \<^verbatim>\<open>null\<close>; with at least 6 entries it is a number, namely the mean severity of the
  entries 0 to 2 less the mean severity of the entries 3 to 5, rounded to one decimal: a
  whole number of tenths at most half a tenth away from that difference.
\<close>

theorem trend_null_or_rounded_difference:
  fixes ls :: "SymptomLog list"
  defines "recent \<equiv> (SymptomLog.severity (ls ! 0) + SymptomLog.severity (ls ! 1)
      + SymptomLog.severity (ls ! 2)) / 3"
    and "previous \<equiv> (SymptomLog.severity (ls ! 3) + SymptomLog.severity (ls ! 4)
      + SymptomLog.severity (ls ! 5)) / 3"
  shows "(length ls < 6 \<longrightarrow> trend ls = None)
    \<and> (6 \<le> length ls \<longrightarrow>
         trend ls = Some (toFixed1 (recent - previous))
         \<and> (\<exists>n::int. trend ls = Some (of_int n / 10)
              \<and> \<bar>of_int n / 10 - (recent - previous)\<bar> \<le> 1 / 20))"
proof (intro conjI impI)
  assume "length ls < 6"
  then show "trend ls = None" by (simp add: trend_def)
next
  assume "6 \<le> length ls"
  then show t: "trend ls = Some (toFixed1 (recent - previous))"
    unfolding recent_def previous_def by (rule trend_long)
  obtain n :: int where n: "toFixed1 (recent - previous) = of_int n / 10"
    using toFixed1_tenths by blast
  have "\<bar>of_int n / 10 - (recent - previous)\<bar> \<le> 1 / 20"
    using toFixed1_near [of "recent - previous"] by (simp only: n)
  with t n show "\<exists>n::int. trend ls = Some (of_int n / 10)
      \<and> \<bar>of_int n / 10 - (recent - previous)\<bar> \<le> 1 / 20"
    by auto
qed

text \<open>
  Six days with the severities 5, 6, 7 (recent) and 2, 3, 3 (before): the trend is
  \<open>6 - 8/3\<close> rounded, 3.3. Without the newest day five entries are left and there is no
  trend.
\<close>

theorem trend_null_or_rounded_difference_witness:
  "length (tl exampleLogs) < 6 \<and> trend (tl exampleLogs) = None
   \<and> 6 \<le> length exampleLogs \<and> trend exampleLogs = Some 3.3"
proof -
  have five: "length (tl exampleLogs) < 6" and six: "6 \<le> length exampleLogs"
    by (simp_all add: exampleLogs_def)
  have "toFixed1
     ((SymptomLog.severity (exampleLogs ! 0) + SymptomLog.severity (exampleLogs ! 1)
         + SymptomLog.severity (exampleLogs ! 2)) / 3
      - (SymptomLog.severity (exampleLogs ! 3) + SymptomLog.severity (exampleLogs ! 4)
         + SymptomLog.severity (exampleLogs ! 5)) / 3) = 3.3"
    by code_simp
  then show ?thesis
    using trend_null_or_rounded_difference [of "tl exampleLogs"]
      trend_null_or_rounded_difference [of exampleLogs] five six
    by simp
qed


section \<open>Properties of the symptom history\<close>

lemma marchDate_simp:
  "marchDate d = [0x32, 0x30, 0x32, 0x36, 0x2D, 0x30, 0x33, 0x2D,
     of_nat (48 + d div 10), of_nat (48 + d mod 10)]"
  by (simp add: marchDate_def utf16_def)

lemma slice_0: "slice xs 0 n = take n xs"
  by (simp add: slice_def)

lemma logs_submitLog:
  "logs (submitLog today st) =
     take 30 (\<lparr>SymptomLog.date = today, severity = symptomSeverity st,
                tookMedicine = Home.tookMedicine st, memo = trim (Home.memo st)\<rparr>
              # filter (\<lambda>entry. SymptomLog.date entry \<noteq> today) (logs st))"
  by (simp add: submitLog_def Let_def slice_0)

lemma logs_fillAndSubmit:
  "logs (fillAndSubmit sub st) =
     take 30 (entryOf sub # filter (\<lambda>entry. SymptomLog.date entry \<noteq> day sub) (logs st))"
  by (simp add: fillAndSubmit_def logs_submitLog entryOf_def)

lemma distinct_map_take: "distinct (map f xs) \<Longrightarrow> distinct (map f (take n xs))"
  by (simp add: take_map [symmetric])

lemma submitLog_distinct:
  assumes "distinct (map SymptomLog.date (logs st))"
  shows "distinct (map SymptomLog.date (logs (submitLog today st)))"
proof -
  let ?item = "\<lparr>SymptomLog.date = today, severity = symptomSeverity st,
                tookMedicine = Home.tookMedicine st, memo = trim (Home.memo st)\<rparr>"
  let ?rest = "filter (\<lambda>entry. SymptomLog.date entry \<noteq> today) (logs st)"
  have "distinct (map SymptomLog.date ?rest)"
    using assms by (rule distinct_map_filter)
  moreover have "today \<notin> set (map SymptomLog.date ?rest)"
    by auto
  ultimately have "distinct (map SymptomLog.date (?item # ?rest))"
    by simp
  then show ?thesis
    unfolding logs_submitLog by (rule distinct_map_take)
qed

lemma date_entryOf: "SymptomLog.date (entryOf sub) = day sub"
  by (simp add: entryOf_def)

lemma take_filter_prefix:
  assumes all: "\<forall>x \<in> set xs. P x" and pre: "take n l = take n (xs @ zs)"
  shows "\<exists>rest. take n (y # filter P l) = take n ((y # xs) @ rest)"
proof -
  have split: "filter P l = filter P (take n (xs @ zs)) @ filter P (drop n l)"
    by (metis pre append_take_drop_id filter_append)
  show ?thesis
  proof (cases "n \<le> length xs")
    case True
    then have "filter P (take n (xs @ zs)) = take n xs"
      using all by (auto simp: filter_id_conv dest: in_set_takeD)
    then have "take n (y # filter P l) = take n (y # take n xs @ filter P (drop n l))"
      by (simp add: split)
    also have "\<dots> = take n ((y # xs) @ [])"
      using True by (cases n) simp_all
    finally show ?thesis by blast
  next
    case False
    then have "take n (xs @ zs) = xs @ take (n - length xs) zs" by simp
    moreover have "filter P xs = xs"
      using all by (simp add: filter_id_conv)
    ultimately have "take n (y # filter P l)
        = take n ((y # xs) @ filter P (take (n - length xs) zs) @ filter P (drop n l))"
      by (simp add: split)
    then show ?thesis by blast
  qed
qed

lemma fold_prefix:
  assumes "distinct (map day subs)"
  shows "\<exists>rest. take 30 (logs (fold fillAndSubmit subs st))
    = take 30 (map entryOf (rev subs) @ rest)"
  using assms
proof (induction subs rule: rev_induct)
  case Nil
  have "take 30 (logs (fold fillAndSubmit [] st)) = take 30 (map entryOf (rev []) @ logs st)"
    by simp
  then show ?case by blast
next
  case (snoc x xs)
  then obtain rest where
    ih: "take 30 (logs (fold fillAndSubmit xs st)) = take 30 (map entryOf (rev xs) @ rest)"
    by auto
  have "day x \<notin> day ` set xs"
    using snoc.prems by simp
  then have "\<forall>e \<in> set (map entryOf (rev xs)). SymptomLog.date e \<noteq> day x"
    by (auto simp: date_entryOf image_iff)
  from take_filter_prefix [OF this ih, of "entryOf x"] obtain rest' where
    step: "take 30 (entryOf x # filter (\<lambda>entry. SymptomLog.date entry \<noteq> day x)
        (logs (fold fillAndSubmit xs st)))
     = take 30 ((entryOf x # map entryOf (rev xs)) @ rest')"
    by blast
  have "logs (fold fillAndSubmit (xs @ [x]) st)
      = take 30 (entryOf x # filter (\<lambda>entry. SymptomLog.date entry \<noteq> day x)
          (logs (fold fillAndSubmit xs st)))"
    by (simp only: fold_append fold_simps comp_apply id_apply logs_fillAndSubmit)
  then have "take 30 (logs (fold fillAndSubmit (xs @ [x]) st))
      = take 30 ((entryOf x # map entryOf (rev xs)) @ rest')"
    by (simp only: take_take min.idem step)
  moreover have "map entryOf (rev (xs @ [x])) = entryOf x # map entryOf (rev xs)"
    by simp
  ultimately show ?case by metis
qed

lemma fold_truncated:
  assumes "subs \<noteq> []"
  shows "take 30 (logs (fold fillAndSubmit subs st)) = logs (fold fillAndSubmit subs st)"
proof (cases subs rule: rev_cases)
  case Nil
  then show ?thesis using assms by simp
next
  case (snoc xs x)
  have "logs (fold fillAndSubmit (xs @ [x]) st)
      = take 30 (entryOf x # filter (\<lambda>entry. SymptomLog.date entry \<noteq> day x)
          (logs (fold fillAndSubmit xs st)))"
    by (simp only: fold_append fold_simps comp_apply id_apply logs_fillAndSubmit)
  then show ?thesis
    by (simp only: snoc take_take min.idem)
qed

lemma fold_thirty_recent:
  assumes "distinct (map day subs)" and "30 \<le> length subs"
  shows "logs (fold fillAndSubmit subs st) = map entryOf (take 30 (rev subs))"
proof -
  obtain rest where
    "take 30 (logs (fold fillAndSubmit subs st)) = take 30 (map entryOf (rev subs) @ rest)"
    using fold_prefix [OF assms(1)] by blast
  moreover have "subs \<noteq> []" using assms(2) by auto
  ultimately have "logs (fold fillAndSubmit subs st) = take 30 (map entryOf (rev subs) @ rest)"
    by (simp add: fold_truncated)
  also have "\<dots> = take 30 (map entryOf (rev subs))"
    using assms(2) by simp
  finally show ?thesis by (simp add: take_map)
qed

text \<open>
  C5. Submitting a log on the date \<open>today\<close>, over any prior history: the new history is
  the new entry followed by the prior entries of other dates, in their order, cut to 30
  entries in all; the new entry is its only entry of that date; it has at most 30
  entries; and if no two prior entries shared a date, no two entries of the new history
  do. After submissions on 31 different dates, from any prior history, the history is
  exactly the entries of the 30 most recent submissions, newest first.
\<close>

theorem submitLog_history:
  fixes today :: jsstring and st :: Home
  defines "item \<equiv> \<lparr>SymptomLog.date = today, severity = symptomSeverity st,
      tookMedicine = Home.tookMedicine st, memo = trim (Home.memo st)\<rparr>"
  shows "logs (submitLog today st)
      = item # take 29 (filter (\<lambda>entry. SymptomLog.date entry \<noteq> today) (logs st))
    \<and> filter (\<lambda>entry. SymptomLog.date entry = today) (logs (submitLog today st)) = [item]
    \<and> length (logs (submitLog today st)) \<le> 30
    \<and> (distinct (map SymptomLog.date (logs st))
        \<longrightarrow> distinct (map SymptomLog.date (logs (submitLog today st))))
    \<and> (\<forall>subs. distinct (map day subs) \<and> length subs = 31
        \<longrightarrow> logs (fold fillAndSubmit subs st) = map entryOf (take 30 (rev subs)))"
proof -
  let ?rest = "take 29 (filter (\<lambda>entry. SymptomLog.date entry \<noteq> today) (logs st))"
  have shape: "logs (submitLog today st) = item # ?rest"
    unfolding logs_submitLog item_def by simp
  have "\<forall>entry \<in> set ?rest. SymptomLog.date entry \<noteq> today"
    by (auto dest: in_set_takeD)
  then have "filter (\<lambda>entry. SymptomLog.date entry = today) ?rest = []"
    by (simp only: filter_empty_conv)
  then have one: "filter (\<lambda>entry. SymptomLog.date entry = today) (logs (submitLog today st))
      = [item]"
    unfolding shape by (simp add: item_def)
  have len: "length (logs (submitLog today st)) \<le> 30"
    unfolding shape by simp
  have many: "\<forall>subs. distinct (map day subs) \<and> length subs = 31
        \<longrightarrow> logs (fold fillAndSubmit subs st) = map entryOf (take 30 (rev subs))"
    by (simp add: fold_thirty_recent)
  have inv: "distinct (map SymptomLog.date (logs st))
      \<longrightarrow> distinct (map SymptomLog.date (logs (submitLog today st)))"
    by (simp add: submitLog_distinct)
  from shape one len inv many show ?thesis
    by (intro conjI)
qed

text \<open>
  Submitting on 6 March over the six days up to 6 March replaces the entry of that day
  and keeps the other five. Submitting on each of the 31 days of March leaves the
  entries of 31 March down to 2 March.
\<close>

theorem submitLog_history_witness:
  "logs (submitLog (marchDate 6) exampleHome)
      = \<lparr>SymptomLog.date = marchDate 6, severity = 4, tookMedicine = True,
          memo = utf16 ''ok''\<rparr> # tl exampleLogs
   \<and> distinct (map SymptomLog.date (logs exampleHome))
   \<and> distinct (map SymptomLog.date (logs (submitLog (marchDate 6) exampleHome)))
   \<and> distinct (map day marchSubmissions) \<and> length marchSubmissions = 31
   \<and> map SymptomLog.date (logs (fold fillAndSubmit marchSubmissions exampleHome))
       = map marchDate [31, 30, 29, 28, 27, 26, 25, 24, 23, 22, 21, 20, 19, 18, 17, 16,
           15, 14, 13, 12, 11, 10, 9, 8, 7, 6, 5, 4, 3, 2]"
proof -
  note inst = submitLog_history [of "marchDate 6" exampleHome]
  have rest: "take 29 (filter (\<lambda>entry. SymptomLog.date entry \<noteq> marchDate 6)
      (logs exampleHome)) = tl exampleLogs"
    by (simp add: exampleHome_def exampleLogs_def logOn_def marchDate_simp)
  have form: "symptomSeverity exampleHome = 4" "Home.tookMedicine exampleHome = True"
      "trim (Home.memo exampleHome) = utf16 ''ok''"
    by (simp_all add: exampleHome_def trim_def utf16_def isWhiteSpace_def)
  have old: "distinct (map SymptomLog.date (logs exampleHome))"
    by (simp add: exampleHome_def exampleLogs_def logOn_def marchDate_simp)
  have subs: "distinct (map day marchSubmissions) \<and> length marchSubmissions = 31"
    by (simp add: marchSubmissions_def marchDate_simp)
  have recent: "map SymptomLog.date (map entryOf (take 30 (rev marchSubmissions)))
      = map marchDate [31, 30, 29, 28, 27, 26, 25, 24, 23, 22, 21, 20, 19, 18, 17, 16,
           15, 14, 13, 12, 11, 10, 9, 8, 7, 6, 5, 4, 3, 2]"
    by (simp add: marchSubmissions_def entryOf_def)
  from inst have "logs (submitLog (marchDate 6) exampleHome)
      = \<lparr>SymptomLog.date = marchDate 6, severity = 4, tookMedicine = True,
          memo = utf16 ''ok''\<rparr> # tl exampleLogs"
    by (simp only: rest form)
  moreover from inst old
  have "distinct (map SymptomLog.date (logs (submitLog (marchDate 6) exampleHome)))"
    by blast
  moreover from inst subs
  have "logs (fold fillAndSubmit marchSubmissions exampleHome)
      = map entryOf (take 30 (rev marchSubmissions))"
    by blast
  ultimately show ?thesis
    using old subs recent by (simp only:)
qed


section \<open>Properties of the pollen status list\<close>

lemma set_insertSorted: "set (insertSorted cmp x xs) = insert x (set xs)"
  by (induction xs) auto

lemma sorted_insertSorted:
  fixes key :: "'a \<Rightarrow> number"
  assumes "sorted_wrt (\<lambda>a b. key a \<ge> key b) xs"
  shows "sorted_wrt (\<lambda>a b. key a \<ge> key b) (insertSorted (\<lambda>a b. key b - key a) x xs)"
  using assms
proof (induction xs)
  case Nil
  then show ?case by simp
next
  case (Cons y ys)
  show ?case
  proof (cases "key y \<le> key x")
    case True
    then have "\<forall>z \<in> set (y # ys). key z \<le> key x"
      using Cons.prems by auto
    then show ?thesis using True Cons.prems by simp
  next
    case False
    then show ?thesis
      using Cons by (auto simp: set_insertSorted)
  qed
qed

lemma filter_insertSorted:
  fixes key :: "'a \<Rightarrow> number"
  shows "filter (\<lambda>t. key t = k) (insertSorted (\<lambda>a b. key b - key a) x xs)
    = filter (\<lambda>t. key t = k) (x # xs)"
  by (induction xs) auto

lemma sorted_sort':
  fixes key :: "'a \<Rightarrow> number"
  shows "sorted_wrt (\<lambda>a b. key a \<ge> key b) (sort' xs (\<lambda>a b. key b - key a))"
  unfolding sort'_def by (induction xs) (simp_all add: sorted_insertSorted)

lemma stable_sort':
  fixes key :: "'a \<Rightarrow> number"
  shows "filter (\<lambda>t. key t = k) (sort' xs (\<lambda>a b. key b - key a)) = filter (\<lambda>t. key t = k) xs"
  unfolding sort'_def by (induction xs) (simp_all add: filter_insertSorted)

lemma score_toStatus:
  "PollenTypeStatus.score (toStatus month weather overall type)
     = estimatePollenTypeScore type month weather overall"
  by (simp add: toStatus_def Let_def)

text \<open>
  C9. The status list is in descending order of score, and for every score \<open>k\<close> the
  entries of the list with that score are the catalog's taxa with that score, in the
  order of the catalog: taxa with equal scores keep their declaration order.
\<close>

theorem pollenTypeStatus_sorted_stable:
  fixes now :: Date and weather :: "WeatherSnapshot option"
    and todayRisk :: "RiskResult option"
  defines "month \<equiv> of_nat (getMonth now) + 1"
    and "overall \<equiv> (case todayRisk of Some r \<Rightarrow> RiskResult.score r | None \<Rightarrow> 40)"
  shows "sorted_wrt (\<lambda>a b. PollenTypeStatus.score a \<ge> PollenTypeStatus.score b)
       (pollenTypeStatus now weather todayRisk)
    \<and> (\<forall>k. filter (\<lambda>t. PollenTypeStatus.score t = k) (pollenTypeStatus now weather todayRisk)
          = map (toStatus month weather overall)
              (filter (\<lambda>type. estimatePollenTypeScore type month weather overall = k)
                 pollenCatalog))"
proof -
  let ?statuses = "map (toStatus month weather overall) pollenCatalog"
  have list: "pollenTypeStatus now weather todayRisk
      = sort' ?statuses (\<lambda>a b. PollenTypeStatus.score b - PollenTypeStatus.score a)"
    by (simp add: pollenTypeStatus_def Let_def month_def overall_def)
  have "filter (\<lambda>t. PollenTypeStatus.score t = k) ?statuses
      = map (toStatus month weather overall)
          (filter (\<lambda>type. estimatePollenTypeScore type month weather overall = k)
             pollenCatalog)" for k
    by (simp add: filter_map comp_def score_toStatus)
  then show ?thesis
    unfolding list by (simp add: sorted_sort' stable_sort')
qed

text \<open>
  In April, before any data has arrived, cedar, cypress, grass and birch all score 91
  and ragweed scores 19: ragweed moves behind birch, the other four stay in catalog
  order.
\<close>

theorem pollenTypeStatus_sorted_stable_witness:
  "map id' (pollenTypeStatus april None None) = [Cedar, Cypress, Grass, Birch, Ragweed]
   \<and> map id' (filter (\<lambda>t. PollenTypeStatus.score t = 91) (pollenTypeStatus april None None))
       = [Cedar, Cypress, Grass, Birch]
   \<and> sorted_wrt (\<lambda>a b. PollenTypeStatus.score a \<ge> PollenTypeStatus.score b)
       (pollenTypeStatus april None None)"
proof -
  have all: "map id' (pollenTypeStatus april None None)
      = [Cedar, Cypress, Grass, Birch, Ragweed]"
    by code_simp
  have "map id' (map (toStatus (of_nat (getMonth april) + 1) None 40)
      (filter (\<lambda>type. estimatePollenTypeScore type (of_nat (getMonth april) + 1) None 40 = 91)
         pollenCatalog)) = [Cedar, Cypress, Grass, Birch]"
    by code_simp
  then show ?thesis
    using pollenTypeStatus_sorted_stable [of april None None] all by simp
qed

end
